theory Spec2Isabelle
  imports Complex_Main
begin

section \<open>Analytics aggregation and scoring engine\<close>

text \<open>
  A shallow embedding of the metric computations of \<^verbatim>\<open>app.py\<close> (the dashboard),
  \<^verbatim>\<open>1.py\<close> (the console report) and \<^verbatim>\<open>2.py\<close> (the chart generator).

  Conventions of the model:
  \<^item> Python's \<^verbatim>\<open>int\<close> is \<open>int\<close>, \<^verbatim>\<open>len(...)\<close> is \<open>length\<close> (a \<open>nat\<close>), and Python's
    \<^verbatim>\<open>float\<close> arithmetic is read over \<open>real\<close>: rounding errors of IEEE doubles are not
    part of the model.
  \<^item> \<^verbatim>\<open>a / b\<close> on a denominator that is not a literal is \<open>py_truediv\<close>, which returns
    \<open>Inl ZeroDivisionError\<close> when \<open>b = 0\<close>; every function that divides returns
    \<open>py_error + 'a\<close>.
  \<^item> A dictionary field read with \<^verbatim>\<open>d.get(k, default)\<close> whose presence matters is an
    \<open>option\<close> (\<open>None\<close>: the key is absent) read with \<open>get_or\<close>. The collections, and
    the counters \<^verbatim>\<open>users_count\<close> and \<^verbatim>\<open>broadcasts_count\<close>, which every reader takes with
    the defaults \<^verbatim>\<open>[]\<close> and \<^verbatim>\<open>0\<close>, are stored with that default already applied;
    \<^verbatim>\<open>channels_count\<close> and \<^verbatim>\<open>instances_count\<close>, which \<^verbatim>\<open>2.py\<close> reads with the default
    \<^verbatim>\<open>1\<close> in one place and \<^verbatim>\<open>0\<close> elsewhere, are options.
  \<^item> Calls into pandas (\<^verbatim>\<open>DataFrame\<close>, \<^verbatim>\<open>sort_values\<close>, \<^verbatim>\<open>quantile\<close>, \<^verbatim>\<open>median\<close>) are
    modelled where a computation depends on them; each such definition says so.
\<close>

subsection \<open>Errors and Python primitives\<close>

text \<open>\<open>ZeroDivisionError\<close> and \<open>KeyError\<close> are the two exceptions the modelled code can
  raise.\<close>

datatype py_error = ZeroDivisionError | KeyError string

definition bind_res :: "py_error + 'a \<Rightarrow> ('a \<Rightarrow> py_error + 'b) \<Rightarrow> py_error + 'b" where
  "bind_res m f = (case m of Inl e \<Rightarrow> Inl e | Inr v \<Rightarrow> f v)"

text \<open>A \<^verbatim>\<open>for\<close> loop that appends one item per element and stops at the first exception.\<close>

fun map_res :: "('a \<Rightarrow> py_error + 'b) \<Rightarrow> 'a list \<Rightarrow> py_error + 'b list" where
  "map_res f [] = Inr []"
| "map_res f (x # xs) =
     bind_res (f x) (\<lambda>y. bind_res (map_res f xs) (\<lambda>ys. Inr (y # ys)))"

definition py_truediv :: "real \<Rightarrow> real \<Rightarrow> py_error + real" where
  "py_truediv a b = (if b = 0 then Inl ZeroDivisionError else Inr (a / b))"

definition get_or :: "'a \<Rightarrow> 'a option \<Rightarrow> 'a" where
  "get_or d v = (case v of None \<Rightarrow> d | Some x \<Rightarrow> x)"

text \<open>\<^verbatim>\<open>round(x, nd)\<close> read on the exact real: to the nearest multiple of \<open>10^-nd\<close>, a tie
  going to the even one. Python rounds the double it holds, which can differ from this
  where the real is a tie (\<^verbatim>\<open>round(0.35, 1)\<close> is \<^verbatim>\<open>0.3\<close>); on a whole number both return the
  number itself. The health row uses it for display fields only; the benchmark, whose
  percentiles are taken on rounded values, takes the rounding as a parameter instead.\<close>

definition py_round :: "real \<Rightarrow> nat \<Rightarrow> real" where
  "py_round x nd =
     (let s = x * 10 ^ nd; f = \<lfloor>s\<rfloor>; d = s - of_int f
      in of_int (if d < 1 / 2 then f else if 1 / 2 < d then f + 1
                 else if even f then f else f + 1) / 10 ^ nd)"

subsection \<open>Entity model\<close>

record user =
  user_type_name :: "string option"
  isActive :: "bool option"
  user_status :: "bool option"

record instance_rec =
  active :: "bool option"

record channel =
  ch_isActive :: "bool option"

record company =
  name :: "string option"
  users :: "user list"
  instances :: "instance_rec list"
  channels :: "channel list"
  users_count :: int
  channels_count :: "int option"
  instances_count :: "int option"
  broadcasts_count :: int

definition company_name :: "company \<Rightarrow> string" where
  "company_name c = get_or ''Unknown'' (name c)"

subsection \<open>Health scoring (\<^verbatim>\<open>app.py\<close>, view "Customer Health Score")\<close>

text \<open>\<^verbatim>\<open>sum(1 for u in users if u.get('isActive', False))\<close>\<close>

definition active_users :: "user list \<Rightarrow> nat" where
  "active_users us = length (filter (\<lambda>u. get_or False (isActive u)) us)"

text \<open>\<^verbatim>\<open>sum(1 for i in instances if i.get('active', False))\<close>\<close>

definition active_instances :: "instance_rec list \<Rightarrow> nat" where
  "active_instances insts = length (filter (\<lambda>i. get_or False (active i)) insts)"

text \<open>\<^verbatim>\<open>(active_users / len(users) * 100) if users else 0\<close>\<close>

definition user_activity_rate :: "user list \<Rightarrow> py_error + real" where
  "user_activity_rate us =
     (if us \<noteq> [] then
        bind_res (py_truediv (real (active_users us)) (real (length us))) (\<lambda>q. Inr (q * 100))
      else Inr 0)"

definition instance_activity_rate :: "instance_rec list \<Rightarrow> py_error + real" where
  "instance_activity_rate insts =
     (if insts \<noteq> [] then
        bind_res (py_truediv (real (active_instances insts)) (real (length insts))) (\<lambda>q. Inr (q * 100))
      else Inr 0)"

text \<open>\<^verbatim>\<open>len(Counter(u.get('user_type_name', 'Unknown') for u in users))\<close>: the number of
  distinct keys.\<close>

definition user_types :: "user list \<Rightarrow> string list" where
  "user_types us = remdups (map (\<lambda>u. get_or ''Unknown'' (user_type_name u)) us)"

text \<open>\<^verbatim>\<open>len(users) / len(channels) if channels else 0\<close>\<close>

definition users_per_channel :: "company \<Rightarrow> py_error + real" where
  "users_per_channel c =
     (if channels c \<noteq> [] then py_truediv (real (length (users c))) (real (length (channels c)))
      else Inr 0)"

text \<open>\<^verbatim>\<open>broadcasts / len(instances) if instances else 0\<close>\<close>

definition broadcasts_per_instance :: "company \<Rightarrow> py_error + real" where
  "broadcasts_per_instance c =
     (if instances c \<noteq> [] then
        py_truediv (real_of_int (broadcasts_count c)) (real (length (instances c)))
      else Inr 0)"

record health =
  h_user_activity_rate :: real
  h_instance_activity_rate :: real
  engagement_score :: real
  type_diversity :: real
  adoption_score :: real
  growth_potential :: real
  overall_health :: real

text \<open>The body of the loop up to \<^verbatim>\<open>overall_health\<close> (lines 1950 to 1986).\<close>

definition health_components :: "company \<Rightarrow> py_error + health" where
  "health_components c =
     bind_res (user_activity_rate (users c)) (\<lambda>uar.
     bind_res (instance_activity_rate (instances c)) (\<lambda>iar.
       let engagement = uar * 0.6 + iar * 0.4;
           diversity = real (length (user_types (users c))) / 4 * 100;
           has_broadcasts = (if broadcasts_count c > 0 then 100 else 0);
           has_channels = (if length (channels c) > 0 then 100 else 0);
           adoption = diversity * 0.4 + has_broadcasts * 0.3 + has_channels * 0.3
       in
     bind_res (users_per_channel c) (\<lambda>upc.
     bind_res (broadcasts_per_instance c) (\<lambda>bpi.
       let growth = min (upc / 10 * 50 + bpi / 5 * 50) 100
       in Inr \<lparr>h_user_activity_rate = uar, h_instance_activity_rate = iar,
               engagement_score = engagement, type_diversity = diversity,
               adoption_score = adoption, growth_potential = growth,
               overall_health = engagement * 0.4 + adoption * 0.3 + growth * 0.3\<rparr>))))"

text \<open>The status strings of the source start with a coloured circle (a character outside
  ASCII) and a space; the circle is kept apart as \<open>status_emoji\<close>, as the source does too.\<close>

datatype emoji = Green_circle | Yellow_circle | Orange_circle | Red_circle

record tier =
  status :: string
  status_emoji :: emoji
  risk :: string
  recommendation :: string

text \<open>The \<^verbatim>\<open>if\<close>/\<^verbatim>\<open>elif\<close> chain on \<^verbatim>\<open>overall_health\<close> (lines 1989 to 2008).\<close>

definition health_tier :: "real \<Rightarrow> tier" where
  "health_tier h =
     (if h \<ge> 80 then
        \<lparr>status = ''Healthy'', status_emoji = Green_circle, risk = ''Low'',
         recommendation = ''Explore upsell opportunities''\<rparr>
      else if h \<ge> 60 then
        \<lparr>status = ''Stable'', status_emoji = Yellow_circle, risk = ''Medium'',
         recommendation = ''Monitor engagement trends''\<rparr>
      else if h \<ge> 40 then
        \<lparr>status = ''At Risk'', status_emoji = Orange_circle, risk = ''High'',
         recommendation = ''Increase engagement, provide training''\<rparr>
      else
        \<lparr>status = ''Critical'', status_emoji = Red_circle, risk = ''Critical'',
         recommendation = ''Immediate intervention required''\<rparr>)"

record health_row =
  Company :: string
  Health_Score :: real
  Tier :: tier
  Engagement_Score :: real
  Adoption_Score :: real
  Growth_Potential :: real
  Active_Users_pct :: real
  Active_Instances_pct :: real
  Total_Users :: nat
  Total_Instances :: nat
  Broadcasts :: int

text \<open>The tier and the dictionary appended to \<^verbatim>\<open>health_scores\<close> (lines 1989 to 2025), from
  the values \<open>h\<close> that the loop body holds at that point: the tier is decided on
  \<^verbatim>\<open>overall_health\<close> as computed, before any rounding.\<close>

definition health_row_of :: "company \<Rightarrow> health \<Rightarrow> health_row" where
  "health_row_of c h =
     \<lparr>Company = company_name c,
      Health_Score = py_round (overall_health h) 1,
      Tier = health_tier (overall_health h),
      Engagement_Score = py_round (engagement_score h) 1,
      Adoption_Score = py_round (adoption_score h) 1,
      Growth_Potential = py_round (growth_potential h) 1,
      Active_Users_pct = py_round (h_user_activity_rate h) 1,
      Active_Instances_pct = py_round (h_instance_activity_rate h) 1,
      Total_Users = length (users c),
      Total_Instances = length (instances c),
      Broadcasts = broadcasts_count c\<rparr>"

text \<open>One iteration of the loop (lines 1949 to 2025).\<close>

definition health_score_row :: "company \<Rightarrow> py_error + health_row" where
  "health_score_row c = bind_res (health_components c) (\<lambda>h. Inr (health_row_of c h))"

definition health_scores :: "company list \<Rightarrow> py_error + health_row list" where
  "health_scores companies = map_res health_score_row companies"

text \<open>
  \<^verbatim>\<open>pd.DataFrame(rows).sort_values(col, ascending=False)\<close> is a call into pandas. A frame
  built from a list of dictionaries has the keys of the dictionaries as its columns, so
  the frame of the empty list has no column and sorting it by a column raises
  \<^verbatim>\<open>KeyError\<close>. Otherwise the rows come back in descending order of the column; the order
  among rows with equal values is the library's, and the model fixes one.
\<close>

definition sort_values :: "string \<Rightarrow> ('r \<Rightarrow> real) \<Rightarrow> 'r list \<Rightarrow> py_error + 'r list" where
  "sort_values col key df = (if df = [] then Inl (KeyError col) else Inr (rev (sort_key key df)))"

text \<open>\<^verbatim>\<open>df_health\<close> (line 2027): the frame the rest of the health view works on.\<close>

definition df_health :: "company list \<Rightarrow> py_error + health_row list" where
  "df_health companies =
     bind_res (health_scores companies) (sort_values ''Health Score'' Health_Score)"

subsection \<open>Alert rules (\<^verbatim>\<open>app.py\<close>, view "Alerts & Anomalies")\<close>

text \<open>
  The alert dictionaries hold f-strings. A message or metric string is kept as its
  template (the constructor) with the interpolated values (the arguments), so that the
  number formatting (\<^verbatim>\<open>:.0f\<close>, \<^verbatim>\<open>:.1f\<close>) stays outside the model. The value of
  \<^verbatim>\<open>'Alert Type'\<close> is a coloured circle and one of three words; the word is kept.
\<close>

datatype alert_type = Critical_type | Warning_type | Info_type

datatype message =
    Only_pct_of_users_active real
  | User_activation_rate_at real
  | Instances_but_no_broadcasts nat
  | Of_instances_inactive nat nat
  | Users_but_no_channels nat
  | High_user_to_instance_ratio real
  | Company_has_no_users

datatype metric =
    Active_metric nat nat
  | Zero_broadcasts_metric
  | Inactive_metric nat nat
  | Zero_channels_metric
  | Users_instances_metric nat nat
  | Zero_users_metric

record alert =
  a_Company :: string
  a_Alert_Type :: alert_type
  a_Category :: string
  a_Message :: message
  a_Severity :: string
  a_Metric :: metric
  a_Action :: string

text \<open>Alert 1 (lines 2231 to 2254): low, or else moderate, user activation.\<close>

definition alert_user_activation :: "company \<Rightarrow> alert list \<Rightarrow> py_error + alert list" where
  "alert_user_activation c alerts =
     (if users c \<noteq> [] then
        bind_res (py_truediv (real (active_users (users c))) (real (length (users c)))) (\<lambda>q.
          let activation_rate = q * 100 in
          if activation_rate < 50 then
            Inr (alerts @
              [\<lparr>a_Company = company_name c, a_Alert_Type = Critical_type,
                a_Category = ''User Activation'',
                a_Message = Only_pct_of_users_active activation_rate,
                a_Severity = ''High'',
                a_Metric = Active_metric (active_users (users c)) (length (users c)),
                a_Action = ''Contact customer success team immediately''\<rparr>])
          else if activation_rate < 70 then
            Inr (alerts @
              [\<lparr>a_Company = company_name c, a_Alert_Type = Warning_type,
                a_Category = ''User Activation'',
                a_Message = User_activation_rate_at activation_rate,
                a_Severity = ''Medium'',
                a_Metric = Active_metric (active_users (users c)) (length (users c)),
                a_Action = ''Schedule training session''\<rparr>])
          else Inr alerts)
      else Inr alerts)"

text \<open>Alert 2 (lines 2257 to 2266): instances but no broadcasts.\<close>

definition alert_zero_broadcasts :: "company \<Rightarrow> alert list \<Rightarrow> alert list" where
  "alert_zero_broadcasts c alerts =
     (if instances c \<noteq> [] \<and> broadcasts_count c = 0 then
        alerts @
          [\<lparr>a_Company = company_name c, a_Alert_Type = Warning_type,
            a_Category = ''Usage'',
            a_Message = Instances_but_no_broadcasts (length (instances c)),
            a_Severity = ''Medium'',
            a_Metric = Zero_broadcasts_metric,
            a_Action = ''Check if customer needs help setting up campaigns''\<rparr>]
      else alerts)"

text \<open>\<^verbatim>\<open>sum(1 for i in instances if not i.get('active', False))\<close>\<close>

definition inactive_instances :: "instance_rec list \<Rightarrow> nat" where
  "inactive_instances insts = length (filter (\<lambda>i. \<not> get_or False (active i)) insts)"

text \<open>Alert 3 (lines 2269 to 2280): more than half of the instances inactive.\<close>

definition alert_inactive_instances :: "company \<Rightarrow> alert list \<Rightarrow> py_error + alert list" where
  "alert_inactive_instances c alerts =
     (if instances c \<noteq> [] then
        bind_res (py_truediv (real (inactive_instances (instances c)))
                    (real (length (instances c)))) (\<lambda>q.
          if q > 0.5 then
            Inr (alerts @
              [\<lparr>a_Company = company_name c, a_Alert_Type = Info_type,
                a_Category = ''Resource Optimization'',
                a_Message = Of_instances_inactive (inactive_instances (instances c))
                              (length (instances c)),
                a_Severity = ''Low'',
                a_Metric = Inactive_metric (inactive_instances (instances c))
                             (length (instances c)),
                a_Action = ''Consider downsizing or reactivating instances''\<rparr>])
          else Inr alerts)
      else Inr alerts)"

text \<open>Alert 4 (lines 2283 to 2292): more than ten users and no channel.\<close>

definition alert_no_channels :: "company \<Rightarrow> alert list \<Rightarrow> alert list" where
  "alert_no_channels c alerts =
     (if length (users c) > 10 \<and> length (channels c) = 0 then
        alerts @
          [\<lparr>a_Company = company_name c, a_Alert_Type = Critical_type,
            a_Category = ''Setup'',
            a_Message = Users_but_no_channels (length (users c)),
            a_Severity = ''High'',
            a_Metric = Zero_channels_metric,
            a_Action = ''Urgent: Complete onboarding process''\<rparr>]
      else alerts)"

text \<open>Alert 5 (lines 2295 to 2306): more than twenty users per instance.\<close>

definition alert_user_instance_ratio :: "company \<Rightarrow> alert list \<Rightarrow> py_error + alert list" where
  "alert_user_instance_ratio c alerts =
     (if instances c \<noteq> [] then
        bind_res (py_truediv (real (length (users c))) (real (length (instances c)))) (\<lambda>ratio.
          if ratio > 20 then
            Inr (alerts @
              [\<lparr>a_Company = company_name c, a_Alert_Type = Info_type,
                a_Category = ''Capacity'',
                a_Message = High_user_to_instance_ratio ratio,
                a_Severity = ''Low'',
                a_Metric = Users_instances_metric (length (users c)) (length (instances c)),
                a_Action = ''May need additional instances for optimal performance''\<rparr>])
          else Inr alerts)
      else Inr alerts)"

text \<open>Alert 6 (lines 2309 to 2318): a company without users.\<close>

definition alert_no_users :: "company \<Rightarrow> alert list \<Rightarrow> alert list" where
  "alert_no_users c alerts =
     (if length (users c) = 0 then
        alerts @
          [\<lparr>a_Company = company_name c, a_Alert_Type = Critical_type,
            a_Category = ''Churn Risk'',
            a_Message = Company_has_no_users,
            a_Severity = ''Critical'',
            a_Metric = Zero_users_metric,
            a_Action = ''Potential churn - reach out immediately''\<rparr>]
      else alerts)"

text \<open>One iteration of the loop over the companies: the six blocks in the order of the
  source, each appending to the list the previous one left.\<close>

definition company_alerts :: "company \<Rightarrow> alert list \<Rightarrow> py_error + alert list" where
  "company_alerts c alerts =
     bind_res (alert_user_activation c alerts) (\<lambda>a1.
     bind_res (alert_inactive_instances c (alert_zero_broadcasts c a1)) (\<lambda>a3.
     bind_res (alert_user_instance_ratio c (alert_no_channels c a3)) (\<lambda>a5.
       Inr (alert_no_users c a5))))"

fun alerts_loop :: "company list \<Rightarrow> alert list \<Rightarrow> py_error + alert list" where
  "alerts_loop [] alerts = Inr alerts"
| "alerts_loop (c # cs) alerts = bind_res (company_alerts c alerts) (alerts_loop cs)"

definition check_alerts :: "company list \<Rightarrow> py_error + alert list" where
  "check_alerts companies = alerts_loop companies []"

text \<open>What a view puts on the page: its content, or a notice in its place.\<close>

datatype 'a view = Shown 'a | Notice string

text \<open>The rest of the alerts view (lines 2320 to 2431): \<^verbatim>\<open>if not df_alerts.empty\<close> guards
  every use of the frame, and the \<^verbatim>\<open>else\<close> branch reports that there is nothing to show
  (the text of the notice starts with a character outside ASCII, left out here).\<close>

definition alerts_view :: "company list \<Rightarrow> py_error + alert list view" where
  "alerts_view companies =
     bind_res (check_alerts companies) (\<lambda>alerts.
       if alerts \<noteq> [] then Inr (Shown alerts)
       else Inr (Notice ''No alerts! All systems operating normally.''))"

subsection \<open>Revenue model (\<^verbatim>\<open>app.py\<close>, view "Revenue Insights")\<close>

definition PRICE_PER_USER :: int where "PRICE_PER_USER = 10"
definition PRICE_PER_INSTANCE :: int where "PRICE_PER_INSTANCE = 50"
definition PRICE_PER_BROADCAST :: real where "PRICE_PER_BROADCAST = 0.01"

record revenue_row =
  r_Company :: string
  Monthly_Revenue :: real
  Annual_Revenue :: real
  User_Revenue :: int
  Instance_Revenue :: int
  Broadcast_Revenue :: real
  r_Users :: int
  r_Instances :: int
  r_Broadcasts :: int
  r_Tier :: string
  ARPU :: real

text \<open>The \<^verbatim>\<open>if\<close>/\<^verbatim>\<open>elif\<close> chain on \<^verbatim>\<open>total_revenue\<close> (lines 2466 to 2473).\<close>

definition revenue_tier :: "real \<Rightarrow> string" where
  "revenue_tier total_revenue =
     (if total_revenue \<ge> 5000 then ''Enterprise''
      else if total_revenue \<ge> 1000 then ''Professional''
      else if total_revenue \<ge> 100 then ''Growth''
      else ''Starter'')"

text \<open>The body of the loop (lines 2455 to 2487).\<close>

definition revenue :: "company \<Rightarrow> py_error + revenue_row" where
  "revenue c =
     (let instances_count = get_or 0 (instances_count c);
          user_revenue = users_count c * PRICE_PER_USER;
          instance_revenue = instances_count * PRICE_PER_INSTANCE;
          broadcast_revenue = real_of_int (broadcasts_count c) * PRICE_PER_BROADCAST;
          total_revenue = real_of_int user_revenue + real_of_int instance_revenue
                            + broadcast_revenue
      in bind_res (if users_count c > 0
                   then py_truediv total_revenue (real_of_int (users_count c)) else Inr 0)
           (\<lambda>arpu.
             Inr \<lparr>r_Company = company_name c,
                  Monthly_Revenue = total_revenue,
                  Annual_Revenue = total_revenue * 12,
                  User_Revenue = user_revenue,
                  Instance_Revenue = instance_revenue,
                  Broadcast_Revenue = broadcast_revenue,
                  r_Users = users_count c,
                  r_Instances = instances_count,
                  r_Broadcasts = broadcasts_count c,
                  r_Tier = revenue_tier total_revenue,
                  ARPU = arpu\<rparr>))"

definition revenue_data :: "company list \<Rightarrow> py_error + revenue_row list" where
  "revenue_data companies = map_res revenue companies"

text \<open>\<^verbatim>\<open>df_revenue\<close> (line 2489): the frame the rest of the revenue view works on.\<close>

definition df_revenue :: "company list \<Rightarrow> py_error + revenue_row list" where
  "df_revenue companies =
     bind_res (revenue_data companies) (sort_values ''Monthly Revenue'' Monthly_Revenue)"

subsection \<open>Benchmarking (\<^verbatim>\<open>app.py\<close>, view "Benchmarking")\<close>

text \<open>\<^verbatim>\<open>broadcasts / len(users) if users else 0\<close>\<close>

definition broadcasts_per_user :: "company \<Rightarrow> py_error + real" where
  "broadcasts_per_user c =
     (if users c \<noteq> [] then
        py_truediv (real_of_int (broadcasts_count c)) (real (length (users c)))
      else Inr 0)"

record benchmark_row =
  b_Company :: string
  User_Activation_pct :: real
  Instance_Utilization_pct :: real
  Users_per_Channel :: real
  Broadcasts_per_User :: real
  Broadcasts_per_Instance :: real
  b_Total_Users :: nat
  b_Total_Instances :: nat
  b_Total_Broadcasts :: int

text \<open>The body of the loop (lines 2655 to 2677). The expressions of
  \<^verbatim>\<open>user_activation\<close> and \<^verbatim>\<open>instance_utilization\<close> are those of the health view.
  \<open>round1 x\<close> stands for \<^verbatim>\<open>round(x, 1)\<close>: the percentiles are taken on the rounded values, and
  what Python's rounding returns on a double is not a function of the real the model
  holds, so the rounding is a parameter of the benchmark.\<close>

definition benchmark_row_of :: "(real \<Rightarrow> real) \<Rightarrow> company \<Rightarrow> py_error + benchmark_row" where
  "benchmark_row_of round1 c =
     bind_res (user_activity_rate (users c)) (\<lambda>user_activation.
     bind_res (instance_activity_rate (instances c)) (\<lambda>instance_utilization.
     bind_res (users_per_channel c) (\<lambda>upc.
     bind_res (broadcasts_per_user c) (\<lambda>bpu.
     bind_res (broadcasts_per_instance c) (\<lambda>bpi.
       Inr \<lparr>b_Company = company_name c,
            User_Activation_pct = round1 user_activation,
            Instance_Utilization_pct = round1 instance_utilization,
            Users_per_Channel = round1 upc,
            Broadcasts_per_User = round1 bpu,
            Broadcasts_per_Instance = round1 bpi,
            b_Total_Users = length (users c),
            b_Total_Instances = length (instances c),
            b_Total_Broadcasts = broadcasts_count c\<rparr>)))))"

definition benchmark_data :: "(real \<Rightarrow> real) \<Rightarrow> company list \<Rightarrow> py_error + benchmark_row list" where
  "benchmark_data round1 companies = map_res (benchmark_row_of round1) companies"

text \<open>
  \<^verbatim>\<open>df_benchmark = pd.DataFrame(benchmark_data)\<close> and \<^verbatim>\<open>df_benchmark[col]\<close> are calls into
  the pandas library, which is not part of the repository. A frame built from a list of
  dictionaries has the keys of the dictionaries as its columns, so the frame of the empty
  list has no column, and selecting a column that does not exist raises \<^verbatim>\<open>KeyError\<close>.
\<close>

definition df_column :: "string \<Rightarrow> ('r \<Rightarrow> real) \<Rightarrow> 'r list \<Rightarrow> py_error + real list" where
  "df_column col sel df = (if df = [] then Inl (KeyError col) else Inr (map sel df))"

text \<open>
  Modelled from the spec: \<^verbatim>\<open>Series.quantile\<close> is pandas code, absent from the sources.
  The spec names "the standard linear-interpolation percentile definition": on the sorted
  values \<open>s\<close> of \<open>n\<close> numbers the quantile \<open>q\<close> sits at the fractional index
  \<open>h = q * (n - 1)\<close> and is \<open>s ! \<lfloor>h\<rfloor>\<close> plus the fraction \<open>h - \<lfloor>h\<rfloor>\<close> of the step to the
  next value. \<open>None\<close> is the not-a-number that pandas returns for a series without values.
\<close>

definition quantile :: "real list \<Rightarrow> real \<Rightarrow> real option" where
  "quantile xs q =
     (if xs = [] then None
      else let s = sort xs; h = q * real (length xs - 1);
               lo = nat \<lfloor>h\<rfloor>; hi = nat \<lceil>h\<rceil>
           in Some (s ! lo + (s ! hi - s ! lo) * (h - real lo)))"

text \<open>
  Modelled from the spec: \<^verbatim>\<open>Series.median\<close> is pandas code, absent from the sources.
  The median of the sorted values is the middle one, or the mean of the two middle ones.
\<close>

definition median :: "real list \<Rightarrow> real option" where
  "median xs =
     (if xs = [] then None
      else let s = sort xs; n = length xs
           in Some (if odd n then s ! (n div 2) else (s ! (n div 2 - 1) + s ! (n div 2)) / 2))"

record percentiles =
  Top_25 :: "real option"
  Median :: "real option"
  Bottom_25 :: "real option"

text \<open>One entry of the \<^verbatim>\<open>benchmarks\<close> dictionary: three column selections, each followed
  by its statistic, in the order of the dictionary literal.\<close>

definition column_percentiles ::
  "string \<Rightarrow> (benchmark_row \<Rightarrow> real) \<Rightarrow> benchmark_row list \<Rightarrow> py_error + percentiles" where
  "column_percentiles col sel df =
     bind_res (df_column col sel df) (\<lambda>s1.
     bind_res (df_column col sel df) (\<lambda>s2.
     bind_res (df_column col sel df) (\<lambda>s3.
       Inr \<lparr>Top_25 = quantile s1 0.75, Median = median s2, Bottom_25 = quantile s3 0.25\<rparr>)))"

text \<open>The \<^verbatim>\<open>benchmarks\<close> dictionary (lines 2682 to 2698), as the list of its items: it has
  three keys.\<close>

definition benchmarks_of :: "benchmark_row list \<Rightarrow> py_error + (string \<times> percentiles) list" where
  "benchmarks_of df =
     bind_res (column_percentiles ''User Activation %'' User_Activation_pct df) (\<lambda>ua.
     bind_res (column_percentiles ''Instance Utilization %'' Instance_Utilization_pct df) (\<lambda>iu.
     bind_res (column_percentiles ''Broadcasts/User'' Broadcasts_per_User df) (\<lambda>bu.
       Inr [(''User Activation %'', ua), (''Instance Utilization %'', iu),
            (''Broadcasts/User'', bu)])))"

text \<open>The benchmarking view from the company list to the dictionary.\<close>

definition benchmarking ::
  "(real \<Rightarrow> real) \<Rightarrow> company list \<Rightarrow> py_error + (string \<times> percentiles) list" where
  "benchmarking round1 companies = bind_res (benchmark_data round1 companies) benchmarks_of"



subsection \<open>Activity heatmap (\<^verbatim>\<open>app.py\<close>, view "Executive Summary")\<close>

text \<open>\<^verbatim>\<open>(sum(1 for c in channels if c.get('isActive', False)) / len(channels) * 100) if channels else 0\<close>\<close>

definition active_channels_pct :: "channel list \<Rightarrow> py_error + real" where
  "active_channels_pct chs =
     (if chs \<noteq> [] then
        bind_res (py_truediv (real (length (filter (\<lambda>c. get_or False (ch_isActive c)) chs)))
                    (real (length chs))) (\<lambda>q. Inr (q * 100))
      else Inr 0)"

subsection \<open>Forecast backfill (\<^verbatim>\<open>app.py\<close>, view "Predictive Analytics")\<close>

record totals =
  total_users :: int
  total_companies :: int
  total_instances :: int
  total_broadcasts :: int

text \<open>\<^verbatim>\<open>months\<close> holds one label per \<^verbatim>\<open>i in range(12, 0, -1)\<close>, the month \<open>30 * i\<close> days
  before now; the model keeps \<open>i\<close>, the number of periods ago, as the label.\<close>

definition months :: "nat list" where
  "months = rev [1..<13]"

text \<open>\<^verbatim>\<open>1 + (i * 0.05) + (np.random.random() * 0.1)\<close>, with \<open>r\<close> the number drawn, in
  \<open>[0, 1)\<close>.\<close>

definition growth_factor :: "nat \<Rightarrow> real \<Rightarrow> real" where
  "growth_factor i r = 1 + real i * 0.05 + r * 0.1"

text \<open>\<^verbatim>\<open>int(x)\<close> on a float: truncation towards zero.\<close>

definition py_int :: "real \<Rightarrow> int" where
  "py_int x = (if x \<ge> 0 then \<lfloor>x\<rfloor> else \<lceil>x\<rceil>)"

text \<open>\<^verbatim>\<open>int(base / growth_factor) if base > 0 else 0\<close>\<close>

definition backfill :: "int \<Rightarrow> real \<Rightarrow> py_error + int" where
  "backfill base gf =
     (if base > 0 then bind_res (py_truediv (real_of_int base) gf) (\<lambda>q. Inr (py_int q))
      else Inr 0)"

record hist_row =
  hist_Month :: nat
  hist_Users :: int
  hist_Companies :: int
  hist_Instances :: int
  hist_Broadcasts :: int

text \<open>The loop \<^verbatim>\<open>for i, month in enumerate(months)\<close> (lines 1582 to 1592); \<open>rnd i\<close> is
  the number drawn in iteration \<open>i\<close>.\<close>

definition historical_data :: "totals \<Rightarrow> (nat \<Rightarrow> real) \<Rightarrow> py_error + hist_row list" where
  "historical_data metadata rnd =
     map_res (\<lambda>(i, month).
       let gf = growth_factor i (rnd i) in
       bind_res (backfill (total_users metadata) gf) (\<lambda>u.
       bind_res (backfill (total_companies metadata) gf) (\<lambda>c.
       bind_res (backfill (total_instances metadata) gf) (\<lambda>n.
       bind_res (backfill (total_broadcasts metadata) gf) (\<lambda>b.
         Inr \<lparr>hist_Month = month, hist_Users = u, hist_Companies = c,
              hist_Instances = n, hist_Broadcasts = b\<rparr>)))))
       (enumerate 0 months)"

text \<open>\<^verbatim>\<open>df_historical\<close> after the current month is appended (lines 1594 to 1604).\<close>

definition df_historical :: "totals \<Rightarrow> (nat \<Rightarrow> real) \<Rightarrow> py_error + hist_row list" where
  "df_historical metadata rnd =
     bind_res (historical_data metadata rnd) (\<lambda>rows.
       Inr (rows @ [\<lparr>hist_Month = 0, hist_Users = total_users metadata,
                     hist_Companies = total_companies metadata,
                     hist_Instances = total_instances metadata,
                     hist_Broadcasts = total_broadcasts metadata\<rparr>]))"

text \<open>\<^verbatim>\<open>y = df_historical[metric].values\<close> (line 1616): the series handed to the
  least-squares fit, oldest period first.\<close>

definition metric_values :: "(hist_row \<Rightarrow> 'a) \<Rightarrow> totals \<Rightarrow> (nat \<Rightarrow> real) \<Rightarrow> py_error + 'a list" where
  "metric_values metric metadata rnd =
     bind_res (df_historical metadata rnd) (\<lambda>df. Inr (map metric df))"

subsection \<open>User breakdown of the console report (\<^verbatim>\<open>1.py\<close>, \<^verbatim>\<open>analyze_users\<close>)\<close>

record user_breakdown =
  type_counts :: "string \<Rightarrow> nat"
  active_count :: nat
  inactive_count :: nat

text \<open>\<^verbatim>\<open>user.get('user_status', user.get('isActive', False))\<close>\<close>

definition user_status_or_isActive :: "user \<Rightarrow> bool" where
  "user_status_or_isActive u = get_or (get_or False (isActive u)) (user_status u)"

text \<open>The loop \<^verbatim>\<open>for user in users\<close> (lines 64 to 71).\<close>

fun analyze_users_loop :: "user list \<Rightarrow> user_breakdown \<Rightarrow> user_breakdown" where
  "analyze_users_loop [] st = st"
| "analyze_users_loop (u # us) st =
     (let user_type = get_or ''Unknown'' (user_type_name u);
          st1 = st\<lparr>type_counts := (type_counts st)(user_type := type_counts st user_type + 1)\<rparr>
      in analyze_users_loop us
           (if user_status_or_isActive u then st1\<lparr>active_count := active_count st1 + 1\<rparr>
            else st1\<lparr>inactive_count := inactive_count st1 + 1\<rparr>))"

definition analyze_users :: "user list \<Rightarrow> user_breakdown" where
  "analyze_users us =
     analyze_users_loop us \<lparr>type_counts = (\<lambda>_. 0), active_count = 0, inactive_count = 0\<rparr>"

text \<open>The two lines after the loop (lines 77 and 78) print the shares of active and of
  inactive users, dividing by \<^verbatim>\<open>len(users)\<close> without a guard.\<close>

definition analyze_users_shares :: "user list \<Rightarrow> py_error + real \<times> real" where
  "analyze_users_shares us =
     (let st = analyze_users us in
      bind_res (py_truediv (real (active_count st)) (real (length us))) (\<lambda>a.
      bind_res (py_truediv (real (inactive_count st)) (real (length us))) (\<lambda>i.
        Inr (a * 100, i * 100))))"

text \<open>\<^verbatim>\<open>analyze_instances\<close> (line 100) and \<^verbatim>\<open>analyze_channels\<close> (line 116) print the share of
  active instances and channels, again without a guard of their own.\<close>

definition analyze_instances_share :: "instance_rec list \<Rightarrow> py_error + real" where
  "analyze_instances_share insts =
     bind_res (py_truediv (real (length (filter (\<lambda>i. get_or False (active i)) insts)))
                 (real (length insts))) (\<lambda>q. Inr (q * 100))"

definition analyze_channels_share :: "channel list \<Rightarrow> py_error + real" where
  "analyze_channels_share chs =
     bind_res (py_truediv (real (length (filter (\<lambda>ch. get_or False (ch_isActive ch)) chs)))
                 (real (length chs))) (\<lambda>q. Inr (q * 100))"

record company_shares =
  users_shares :: "(real \<times> real) option"
  instances_share :: "real option"
  channels_share :: "real option"

text \<open>The calls in \<^verbatim>\<open>analyze_companies\<close> (lines 40 to 49): each analysis runs only
  \<^verbatim>\<open>if company.get(...)\<close> finds a non-empty collection, so for an empty one no share is
  computed at all (\<open>None\<close>).\<close>

definition analyze_company :: "company \<Rightarrow> py_error + company_shares" where
  "analyze_company c =
     bind_res (if users c \<noteq> [] then bind_res (analyze_users_shares (users c)) (\<lambda>p. Inr (Some p))
               else Inr None) (\<lambda>u.
     bind_res (if instances c \<noteq> []
               then bind_res (analyze_instances_share (instances c)) (\<lambda>p. Inr (Some p))
               else Inr None) (\<lambda>i.
     bind_res (if channels c \<noteq> []
               then bind_res (analyze_channels_share (channels c)) (\<lambda>p. Inr (Some p))
               else Inr None) (\<lambda>ch.
       Inr \<lparr>users_shares = u, instances_share = i, channels_share = ch\<rparr>)))"

subsection \<open>Charts (\<^verbatim>\<open>2.py\<close>)\<close>

record heatmap_column =
  hm_active_users_pct :: real
  hm_active_instances_pct :: real
  hm_active_channels_pct :: real

text \<open>\<^verbatim>\<open>create_activity_heatmap\<close>, the body of the loop (lines 213 to 232): each share is
  guarded by its collection and is 0 for an empty one; a user counts by
  \<^verbatim>\<open>user_status\<close> when present.\<close>

definition activity_heatmap_column :: "company \<Rightarrow> py_error + heatmap_column" where
  "activity_heatmap_column c =
     bind_res (if users c \<noteq> [] then
                 bind_res (py_truediv (real (length (filter user_status_or_isActive (users c))))
                             (real (length (users c)))) (\<lambda>q. Inr (q * 100))
               else Inr 0) (\<lambda>u.
     bind_res (if instances c \<noteq> [] then
                 bind_res (py_truediv (real (length (filter (\<lambda>i. get_or False (active i))
                                                       (instances c))))
                             (real (length (instances c)))) (\<lambda>q. Inr (q * 100))
               else Inr 0) (\<lambda>i.
     bind_res (if channels c \<noteq> [] then
                 bind_res (py_truediv (real (length (filter (\<lambda>ch. get_or False (ch_isActive ch))
                                                       (channels c))))
                             (real (length (channels c)))) (\<lambda>q. Inr (q * 100))
               else Inr 0) (\<lambda>ch.
       Inr \<lparr>hm_active_users_pct = u, hm_active_instances_pct = i,
            hm_active_channels_pct = ch\<rparr>)))"

record resource_utilization =
  ru_users_per_channel :: real
  ru_instances_utilization :: real
  ru_broadcasts_per_instance :: real

text \<open>\<^verbatim>\<open>create_resource_utilization_chart\<close>, the body of the loop (lines 378 to 393). The two
  ratios are taken on the counters, not on the collections, and the counters of the
  denominators are read with the default \<^verbatim>\<open>1\<close>:
  \<^verbatim>\<open>channels = company.get('channels_count', 1)  # Avoid division by zero\<close> and
  \<^verbatim>\<open>instance_count = company.get('instances_count', 1)\<close>.\<close>

definition resource_utilization_of :: "company \<Rightarrow> py_error + resource_utilization" where
  "resource_utilization_of c =
     (let users = users_count c;
          channels = get_or 1 (channels_count c)
      in
     bind_res (if channels > 0 then py_truediv (real_of_int users) (real_of_int channels)
               else Inr 0) (\<lambda>upc.
     bind_res (if instances c \<noteq> [] then
                 bind_res (py_truediv (real (length (filter (\<lambda>i. get_or False (active i))
                                                       (instances c))))
                             (real (length (instances c)))) (\<lambda>q. Inr (q * 100))
               else Inr 0) (\<lambda>util.
       let broadcasts = broadcasts_count c;
           instance_count = get_or 1 (instances_count c)
       in
     bind_res (if instance_count > 0
               then py_truediv (real_of_int broadcasts) (real_of_int instance_count)
               else Inr 0) (\<lambda>bpi.
       Inr \<lparr>ru_users_per_channel = upc, ru_instances_utilization = util,
            ru_broadcasts_per_instance = bpi\<rparr>))))"

section \<open>The specification's formulas\<close>

text \<open>The definitions of this section follow the words of the specification, not the
  code; the theorems below compare the two.\<close>

subsection \<open>Health formulas\<close>

definition spec_percentage :: "nat \<Rightarrow> nat \<Rightarrow> real" where
  "spec_percentage k n = (if n = 0 then 0 else real k / real n * 100)"

text \<open>The activity flag of a user: "derived from \<open>user_status\<close> if present, else
  \<open>isActive\<close>".\<close>

definition spec_active :: "user \<Rightarrow> bool" where
  "spec_active u = (case user_status u of Some b \<Rightarrow> b | None \<Rightarrow> get_or False (isActive u))"

definition spec_userActivation :: "company \<Rightarrow> real" where
  "spec_userActivation c =
     spec_percentage (length (filter spec_active (users c))) (length (users c))"

definition spec_instanceUtilization :: "company \<Rightarrow> real" where
  "spec_instanceUtilization c =
     spec_percentage (length (filter (\<lambda>i. get_or False (active i)) (instances c)))
       (length (instances c))"

definition spec_Engagement :: "company \<Rightarrow> real" where
  "spec_Engagement c = spec_userActivation c * 0.6 + spec_instanceUtilization c * 0.4"

definition spec_TypeDiversity :: "company \<Rightarrow> real" where
  "spec_TypeDiversity c =
     real (card ((\<lambda>u. get_or ''Unknown'' (user_type_name u)) ` set (users c))) / 4 * 100"

definition spec_Adoption :: "company \<Rightarrow> real" where
  "spec_Adoption c =
     spec_TypeDiversity c * 0.4
       + (if broadcasts_count c > 0 then 100 else 0) * 0.3
       + (if channels c \<noteq> [] then 100 else 0) * 0.3"

definition spec_usersPerChannel :: "company \<Rightarrow> real" where
  "spec_usersPerChannel c =
     (if channels c = [] then 0 else real (length (users c)) / real (length (channels c)))"

definition spec_broadcastsPerInstance :: "company \<Rightarrow> real" where
  "spec_broadcastsPerInstance c =
     (if instances c = [] then 0
      else real_of_int (broadcasts_count c) / real (length (instances c)))"

definition spec_GrowthPotential :: "company \<Rightarrow> real" where
  "spec_GrowthPotential c =
     min (spec_usersPerChannel c / 10 * 50 + spec_broadcastsPerInstance c / 5 * 50) 100"

definition spec_OverallHealth :: "company \<Rightarrow> real" where
  "spec_OverallHealth c =
     spec_Engagement c * 0.4 + spec_Adoption c * 0.3 + spec_GrowthPotential c * 0.3"


text \<open>The companies on which the flag of every user is what \<open>isActive\<close> alone says: no
  user carries a \<open>user_status\<close> that differs from its \<open>isActive\<close>.\<close>

definition flags_agree :: "company \<Rightarrow> bool" where
  "flags_agree c = list_all (\<lambda>u. spec_active u = get_or False (isActive u)) (users c)"

subsection \<open>Alert rules\<close>

datatype rule =
    Low_activation | Moderate_activation | Zero_broadcasts | Idle_instance_pool
  | Missing_channels | High_user_instance_ratio | No_users

definition all_rules :: "rule list" where
  "all_rules = [Low_activation, Moderate_activation, Zero_broadcasts, Idle_instance_pool,
                Missing_channels, High_user_instance_ratio, No_users]"

definition spec_activation_pct :: "company \<Rightarrow> real" where
  "spec_activation_pct c =
     real (length (filter spec_active (users c))) / real (length (users c)) * 100"

definition spec_inactive_share :: "company \<Rightarrow> real" where
  "spec_inactive_share c =
     real (length (filter (\<lambda>i. \<not> get_or False (active i)) (instances c)))
       / real (length (instances c))"

definition spec_user_instance_ratio :: "company \<Rightarrow> real" where
  "spec_user_instance_ratio c = real (length (users c)) / real (length (instances c))"

text \<open>The condition column of the rule table.\<close>

fun spec_rule_holds :: "rule \<Rightarrow> company \<Rightarrow> bool" where
  "spec_rule_holds Low_activation c = (users c \<noteq> [] \<and> spec_activation_pct c < 50)"
| "spec_rule_holds Moderate_activation c =
     (users c \<noteq> [] \<and> 50 \<le> spec_activation_pct c \<and> spec_activation_pct c < 70)"
| "spec_rule_holds Zero_broadcasts c = (instances c \<noteq> [] \<and> broadcasts_count c = 0)"
| "spec_rule_holds Idle_instance_pool c = (instances c \<noteq> [] \<and> spec_inactive_share c > 0.5)"
| "spec_rule_holds Missing_channels c = (length (users c) > 10 \<and> length (channels c) = 0)"
| "spec_rule_holds High_user_instance_ratio c =
     (instances c \<noteq> [] \<and> spec_user_instance_ratio c > 20)"
| "spec_rule_holds No_users c = (length (users c) = 0)"

text \<open>The severity column of the rule table.\<close>

fun spec_rule_severity :: "rule \<Rightarrow> string" where
  "spec_rule_severity Low_activation = ''High''"
| "spec_rule_severity Moderate_activation = ''Medium''"
| "spec_rule_severity Zero_broadcasts = ''Medium''"
| "spec_rule_severity Idle_instance_pool = ''Low''"
| "spec_rule_severity Missing_channels = ''High''"
| "spec_rule_severity High_user_instance_ratio = ''Low''"
| "spec_rule_severity No_users = ''Critical''"

fun spec_rule_category :: "rule \<Rightarrow> string" where
  "spec_rule_category Low_activation = ''User Activation''"
| "spec_rule_category Moderate_activation = ''User Activation''"
| "spec_rule_category Zero_broadcasts = ''Usage''"
| "spec_rule_category Idle_instance_pool = ''Resource Optimization''"
| "spec_rule_category Missing_channels = ''Setup''"
| "spec_rule_category High_user_instance_ratio = ''Capacity''"
| "spec_rule_category No_users = ''Churn Risk''"

text \<open>The message of a rule, with the metric value it interpolates.\<close>

fun spec_rule_message :: "rule \<Rightarrow> company \<Rightarrow> message" where
  "spec_rule_message Low_activation c = Only_pct_of_users_active (spec_activation_pct c)"
| "spec_rule_message Moderate_activation c = User_activation_rate_at (spec_activation_pct c)"
| "spec_rule_message Zero_broadcasts c = Instances_but_no_broadcasts (length (instances c))"
| "spec_rule_message Idle_instance_pool c =
     Of_instances_inactive (length (filter (\<lambda>i. \<not> get_or False (active i)) (instances c)))
       (length (instances c))"
| "spec_rule_message Missing_channels c = Users_but_no_channels (length (users c))"
| "spec_rule_message High_user_instance_ratio c =
     High_user_to_instance_ratio (spec_user_instance_ratio c)"
| "spec_rule_message No_users c = Company_has_no_users"

fun spec_rule_action :: "rule \<Rightarrow> string" where
  "spec_rule_action Low_activation = ''Contact customer success team immediately''"
| "spec_rule_action Moderate_activation = ''Schedule training session''"
| "spec_rule_action Zero_broadcasts = ''Check if customer needs help setting up campaigns''"
| "spec_rule_action Idle_instance_pool = ''Consider downsizing or reactivating instances''"
| "spec_rule_action Missing_channels = ''Urgent: Complete onboarding process''"
| "spec_rule_action High_user_instance_ratio =
     ''May need additional instances for optimal performance''"
| "spec_rule_action No_users = ''Potential churn - reach out immediately''"

text \<open>What an alert of a rule carries: company, category, message, severity, action.\<close>

definition carries :: "alert \<Rightarrow> rule \<Rightarrow> company \<Rightarrow> bool" where
  "carries a r c =
     (a_Company a = company_name c \<and> a_Category a = spec_rule_category r
      \<and> a_Message a = spec_rule_message r c \<and> a_Severity a = spec_rule_severity r
      \<and> a_Action a = spec_rule_action r)"

text \<open>The rules whose conditions hold on a company, in the order of the table.\<close>

definition spec_fired :: "company \<Rightarrow> rule list" where
  "spec_fired c = filter (\<lambda>r. spec_rule_holds r c) all_rules"

subsection \<open>Revenue\<close>

definition spec_monthly :: "company \<Rightarrow> real" where
  "spec_monthly c =
     real_of_int (users_count c) * 10 + real_of_int (get_or 0 (instances_count c)) * 50
       + real_of_int (broadcasts_count c) * 0.01"

definition spec_tier :: "real \<Rightarrow> string" where
  "spec_tier m =
     (if m \<ge> 5000 then ''Enterprise'' else if m \<ge> 1000 then ''Professional''
      else if m \<ge> 100 then ''Growth'' else ''Starter'')"

definition spec_ARPU :: "company \<Rightarrow> real" where
  "spec_ARPU c =
     (if users_count c = 0 then 0 else spec_monthly c / real_of_int (users_count c))"

subsection \<open>Percentiles\<close>




section \<open>Concrete inputs\<close>

definition agent :: "bool \<Rightarrow> user" where
  "agent a = \<lparr>user_type_name = Some ''Agent'', isActive = Some a, user_status = None\<rparr>"

definition typed_user :: "string option \<Rightarrow> user" where
  "typed_user t = \<lparr>user_type_name = t, isActive = Some True, user_status = None\<rparr>"

definition inst :: "bool \<Rightarrow> instance_rec" where
  "inst a = \<lparr>active = Some a\<rparr>"

definition chan :: "bool \<Rightarrow> channel" where
  "chan a = \<lparr>ch_isActive = Some a\<rparr>"

text \<open>A company with one active agent, one active instance, one channel and five
  broadcasts.\<close>

definition small_company :: company where
  "small_company =
     \<lparr>name = Some ''Acme'', users = [agent True], instances = [inst True],
      channels = [chan True], users_count = 1, channels_count = Some 1,
      instances_count = Some 1, broadcasts_count = 5\<rparr>"

text \<open>A company whose five active users carry the four known types and no type at all
  (read as 'Unknown'), with one active instance, one channel and ten broadcasts.\<close>

definition five_type_company :: company where
  "five_type_company =
     \<lparr>name = Some ''Five'',
      users = [typed_user (Some ''Agent''), typed_user (Some ''Admin''),
               typed_user (Some ''Supervisor''), typed_user (Some ''AI''), typed_user None],
      instances = [inst True], channels = [chan True],
      users_count = 5, channels_count = Some 1, instances_count = Some 1,
      broadcasts_count = 10\<rparr>"

text \<open>A company without users, instances and channels.\<close>

definition empty_company :: company where
  "empty_company =
     \<lparr>name = None, users = [], instances = [], channels = [],
      users_count = 0, channels_count = Some 0, instances_count = Some 0,
      broadcasts_count = 0\<rparr>"

text \<open>The company of the revenue example: 100 users, 2 instances, 500 broadcasts.\<close>

definition revenue_example :: company where
  "revenue_example =
     \<lparr>name = Some ''Example'', users = [], instances = [], channels = [],
      users_count = 100, channels_count = None, instances_count = Some 2,
      broadcasts_count = 500\<rparr>"

text \<open>A user whose \<^verbatim>\<open>user_status\<close> holds while its \<^verbatim>\<open>isActive\<close> does not.\<close>

definition status_only_user :: user where
  "status_only_user =
     \<lparr>user_type_name = Some ''Agent'', isActive = Some False, user_status = Some True\<rparr>"

text \<open>Totals of 1000 for every metric, and a random source that always draws 0.\<close>

definition thousand :: totals where
  "thousand = \<lparr>total_users = 1000, total_companies = 1000, total_instances = 1000,
               total_broadcasts = 1000\<rparr>"


text \<open>A company whose only user is \<open>status_only_user\<close>, with one active instance, one
  channel and five broadcasts.\<close>

definition status_only_company :: company where
  "status_only_company =
     \<lparr>name = Some ''Status'', users = [status_only_user], instances = [inst True],
      channels = [chan True], users_count = 1, channels_count = Some 1,
      instances_count = Some 1, broadcasts_count = 5\<rparr>"

text \<open>A company with empty collections whose record holds the counters of users (5) and
  broadcasts (7) but no \<^verbatim>\<open>channels_count\<close> and no \<^verbatim>\<open>instances_count\<close> key.\<close>

definition counterless_company :: company where
  "counterless_company =
     \<lparr>name = Some ''Bare'', users = [], instances = [], channels = [],
      users_count = 5, channels_count = None, instances_count = None,
      broadcasts_count = 7\<rparr>"


section \<open>Verification\<close>

subsection \<open>Auxiliary facts\<close>

lemma bind_res_Inr [simp]: "bind_res (Inr v) f = f v"
  by (simp add: bind_res_def)

lemma bind_res_Inl [simp]: "bind_res (Inl e) f = Inl e"
  by (simp add: bind_res_def)

lemma py_truediv_nonzero: "b \<noteq> 0 \<Longrightarrow> py_truediv a b = Inr (a / b)"
  by (simp add: py_truediv_def)

lemmas rate_defs = user_activity_rate_def instance_activity_rate_def users_per_channel_def
  broadcasts_per_instance_def broadcasts_per_user_def active_channels_pct_def py_truediv_def

text \<open>A loop whose body never raises returns one item per element.\<close>

lemma map_res_total:
  assumes "\<And>x. \<exists>y. f x = Inr y"
  shows "\<exists>ys. map_res f xs = Inr ys \<and> length ys = length xs"
proof (induction xs)
  case Nil
  show ?case by simp
next
  case (Cons x xs)
  from assms obtain y where "f x = Inr y" by blast
  moreover from Cons obtain ys where "map_res f xs = Inr ys" "length ys = length xs" by blast
  ultimately show ?case by simp
qed


lemma map_res_Inr_map:
  assumes "\<And>x. x \<in> set xs \<Longrightarrow> f x = Inr (g x)"
  shows "map_res f xs = Inr (map g xs)"
  using assms by (induction xs) simp_all

subsection \<open>Health components\<close>

text \<open>The components in closed form, with the user activation as the dashboard counts
  it.\<close>

lemma health_components_closed:
  "health_components c =
     Inr \<lparr>h_user_activity_rate = spec_percentage (active_users (users c)) (length (users c)),
          h_instance_activity_rate = spec_instanceUtilization c,
          engagement_score =
            spec_percentage (active_users (users c)) (length (users c)) * 0.6
              + spec_instanceUtilization c * 0.4,
          type_diversity = spec_TypeDiversity c,
          adoption_score = spec_Adoption c,
          growth_potential = spec_GrowthPotential c,
          overall_health =
            (spec_percentage (active_users (users c)) (length (users c)) * 0.6
               + spec_instanceUtilization c * 0.4) * 0.4
              + spec_Adoption c * 0.3 + spec_GrowthPotential c * 0.3\<rparr>"
  by (simp add: health_components_def rate_defs spec_instanceUtilization_def
      spec_TypeDiversity_def spec_Adoption_def spec_GrowthPotential_def
      spec_usersPerChannel_def spec_broadcastsPerInstance_def spec_percentage_def
      active_users_def active_instances_def user_types_def Let_def length_remdups_card_conv)

lemma flags_agree_active_users:
  assumes "flags_agree c"
  shows "active_users (users c) = length (filter spec_active (users c))"
proof -
  have "filter (\<lambda>u. get_or False (isActive u)) (users c) = filter spec_active (users c)"
    using assms by (intro filter_cong) (auto simp: flags_agree_def list_all_iff)
  then show ?thesis by (simp add: active_users_def)
qed

text \<open>Where the flags agree, the components are the specification's.\<close>

lemma health_components_spec:
  assumes "flags_agree c"
  shows "health_components c =
     Inr \<lparr>h_user_activity_rate = spec_userActivation c,
          h_instance_activity_rate = spec_instanceUtilization c,
          engagement_score = spec_Engagement c,
          type_diversity = spec_TypeDiversity c,
          adoption_score = spec_Adoption c,
          growth_potential = spec_GrowthPotential c,
          overall_health = spec_OverallHealth c\<rparr>"
  by (simp add: health_components_closed flags_agree_active_users [OF assms]
      spec_userActivation_def spec_Engagement_def spec_OverallHealth_def)

lemma five_type_health:
  "health_components five_type_company =
     Inr \<lparr>h_user_activity_rate = 100, h_instance_activity_rate = 100,
          engagement_score = 100, type_diversity = 125, adoption_score = 110,
          growth_potential = 100, overall_health = 103\<rparr>"
  by (simp add: health_components_def rate_defs five_type_company_def typed_user_def inst_def
      chan_def active_users_def active_instances_def user_types_def get_or_def Let_def)

subsection \<open>Alert blocks\<close>

lemma alert_user_activation_fired:
  assumes "flags_agree c"
  shows "\<exists>as. alert_user_activation c alerts = Inr (alerts @ as)
   \<and> list_all2 (\<lambda>a r. carries a r c) as
        (filter (\<lambda>r. spec_rule_holds r c) [Low_activation, Moderate_activation])"
proof (cases "users c = []")
  case True
  then show ?thesis by (simp add: alert_user_activation_def)
next
  case False
  have div: "py_truediv (real (active_users (users c))) (real (length (users c)))
      = Inr (spec_activation_pct c / 100)"
    using False
    by (simp add: py_truediv_def spec_activation_pct_def flags_agree_active_users [OF assms])
  consider "spec_activation_pct c < 50"
    | "50 \<le> spec_activation_pct c" "spec_activation_pct c < 70"
    | "70 \<le> spec_activation_pct c"
    by linarith
  then show ?thesis
  proof cases
    case 1
    with False show ?thesis
      by (simp add: alert_user_activation_def div Let_def carries_def)
  next
    case 2
    with False show ?thesis
      by (simp add: alert_user_activation_def div Let_def carries_def)
  next
    case 3
    with False show ?thesis
      by (simp add: alert_user_activation_def div Let_def)
  qed
qed

lemma alert_zero_broadcasts_fired: "\<exists>as. alert_zero_broadcasts c alerts = alerts @ as
   \<and> list_all2 (\<lambda>a r. carries a r c) as (filter (\<lambda>r. spec_rule_holds r c) [Zero_broadcasts])"
  by (simp add: alert_zero_broadcasts_def carries_def)

lemma alert_inactive_instances_fired: "\<exists>as. alert_inactive_instances c alerts = Inr (alerts @ as)
   \<and> list_all2 (\<lambda>a r. carries a r c) as (filter (\<lambda>r. spec_rule_holds r c) [Idle_instance_pool])"
  by (simp add: alert_inactive_instances_def py_truediv_nonzero carries_def
      spec_inactive_share_def inactive_instances_def)

lemma alert_no_channels_fired: "\<exists>as. alert_no_channels c alerts = alerts @ as
   \<and> list_all2 (\<lambda>a r. carries a r c) as (filter (\<lambda>r. spec_rule_holds r c) [Missing_channels])"
  by (simp add: alert_no_channels_def carries_def)

lemma alert_user_instance_ratio_fired: "\<exists>as. alert_user_instance_ratio c alerts = Inr (alerts @ as)
   \<and> list_all2 (\<lambda>a r. carries a r c) as
        (filter (\<lambda>r. spec_rule_holds r c) [High_user_instance_ratio])"
  by (simp add: alert_user_instance_ratio_def py_truediv_nonzero carries_def
      spec_user_instance_ratio_def)

lemma alert_no_users_fired: "\<exists>as. alert_no_users c alerts = alerts @ as
   \<and> list_all2 (\<lambda>a r. carries a r c) as (filter (\<lambda>r. spec_rule_holds r c) [No_users])"
  by (simp add: alert_no_users_def carries_def)

lemma company_alerts_fired:
  assumes fl: "flags_agree c"
  shows "\<exists>as. company_alerts c alerts = Inr (alerts @ as)
     \<and> list_all2 (\<lambda>a r. carries a r c) as (spec_fired c)"
proof -
  obtain as1 where 1: "alert_user_activation c alerts = Inr (alerts @ as1)"
    and l1: "list_all2 (\<lambda>a r. carries a r c) as1
        (filter (\<lambda>r. spec_rule_holds r c) [Low_activation, Moderate_activation])"
    using alert_user_activation_fired [OF fl] by blast
  obtain as2 where 2: "alert_zero_broadcasts c (alerts @ as1) = (alerts @ as1) @ as2"
    and l2: "list_all2 (\<lambda>a r. carries a r c) as2 (filter (\<lambda>r. spec_rule_holds r c) [Zero_broadcasts])"
    using alert_zero_broadcasts_fired by blast
  obtain as3 where 3: "alert_inactive_instances c ((alerts @ as1) @ as2) = Inr (((alerts @ as1) @ as2) @ as3)"
    and l3: "list_all2 (\<lambda>a r. carries a r c) as3 (filter (\<lambda>r. spec_rule_holds r c) [Idle_instance_pool])"
    using alert_inactive_instances_fired by blast
  obtain as4 where 4: "alert_no_channels c (((alerts @ as1) @ as2) @ as3) = (((alerts @ as1) @ as2) @ as3) @ as4"
    and l4: "list_all2 (\<lambda>a r. carries a r c) as4 (filter (\<lambda>r. spec_rule_holds r c) [Missing_channels])"
    using alert_no_channels_fired by blast
  obtain as5 where 5: "alert_user_instance_ratio c ((((alerts @ as1) @ as2) @ as3) @ as4)
        = Inr (((((alerts @ as1) @ as2) @ as3) @ as4) @ as5)"
    and l5: "list_all2 (\<lambda>a r. carries a r c) as5 (filter (\<lambda>r. spec_rule_holds r c) [High_user_instance_ratio])"
    using alert_user_instance_ratio_fired by blast
  obtain as6 where 6: "alert_no_users c (((((alerts @ as1) @ as2) @ as3) @ as4) @ as5)
        = (((((alerts @ as1) @ as2) @ as3) @ as4) @ as5) @ as6"
    and l6: "list_all2 (\<lambda>a r. carries a r c) as6 (filter (\<lambda>r. spec_rule_holds r c) [No_users])"
    using alert_no_users_fired by blast
  have run: "company_alerts c alerts = Inr (alerts @ (as1 @ as2 @ as3 @ as4 @ as5 @ as6))"
    unfolding company_alerts_def by (simp only: 1 2 3 4 5 6 bind_res_Inr) simp
  have split: "spec_fired c =
      filter (\<lambda>r. spec_rule_holds r c) [Low_activation, Moderate_activation]
      @ filter (\<lambda>r. spec_rule_holds r c) [Zero_broadcasts]
      @ filter (\<lambda>r. spec_rule_holds r c) [Idle_instance_pool]
      @ filter (\<lambda>r. spec_rule_holds r c) [Missing_channels]
      @ filter (\<lambda>r. spec_rule_holds r c) [High_user_instance_ratio]
      @ filter (\<lambda>r. spec_rule_holds r c) [No_users]"
    unfolding spec_fired_def all_rules_def by (simp only: filter_append [symmetric] append.simps)
  have "list_all2 (\<lambda>a r. carries a r c) (as1 @ as2 @ as3 @ as4 @ as5 @ as6) (spec_fired c)"
    unfolding split by (intro list_all2_appendI l1 l2 l3 l4 l5 l6)
  with run show ?thesis by blast
qed


subsection \<open>Percentiles\<close>












subsection \<open>Rates on empty collections\<close>

text \<open>The six rates of the dashboard return a value for every company, and 0 when a
  collection they divide by, or count, is empty.\<close>

lemma app_rates_on_empty_collections:
  "(users c = [] \<longrightarrow>
      user_activity_rate (users c) = Inr 0 \<and> broadcasts_per_user c = Inr 0
      \<and> users_per_channel c = Inr 0)
   \<and> (instances c = [] \<longrightarrow>
      instance_activity_rate (instances c) = Inr 0 \<and> broadcasts_per_instance c = Inr 0)
   \<and> (channels c = [] \<longrightarrow>
      active_channels_pct (channels c) = Inr 0 \<and> users_per_channel c = Inr 0)
   \<and> (\<exists>a b d e f g.
        user_activity_rate (users c) = Inr a \<and> instance_activity_rate (instances c) = Inr b
        \<and> active_channels_pct (channels c) = Inr d \<and> users_per_channel c = Inr e
        \<and> broadcasts_per_user c = Inr f \<and> broadcasts_per_instance c = Inr g)"
  by (simp add: rate_defs)

text \<open>So do the three shares of the chart generator's heatmap.\<close>

lemma activity_heatmap_column_on_empty_collections:
  "\<exists>r. activity_heatmap_column c = Inr r
     \<and> (users c = [] \<longrightarrow> hm_active_users_pct r = 0)
     \<and> (instances c = [] \<longrightarrow> hm_active_instances_pct r = 0)
     \<and> (channels c = [] \<longrightarrow> hm_active_channels_pct r = 0)"
  by (simp add: activity_heatmap_column_def py_truediv_def)

text \<open>The console report computes no share at all for an empty collection, and never
  raises.\<close>

lemma analyze_company_on_empty_collections:
  "\<exists>r. analyze_company c = Inr r
     \<and> (users c = [] \<longrightarrow> users_shares r = None)
     \<and> (instances c = [] \<longrightarrow> instances_share r = None)
     \<and> (channels c = [] \<longrightarrow> channels_share r = None)"
  by (simp add: analyze_company_def analyze_users_shares_def analyze_instances_share_def
      analyze_channels_share_def py_truediv_def Let_def)

text \<open>The chart generator's resource ratios never raise, and are 0 where the counter of
  the denominator is present and 0.\<close>

lemma resource_utilization_total: "\<exists>r. resource_utilization_of c = Inr r"
  by (simp add: resource_utilization_of_def py_truediv_def Let_def)

lemma resource_utilization_zero_counters:
  assumes "resource_utilization_of c = Inr r"
  shows "(channels_count c = Some 0 \<longrightarrow> ru_users_per_channel r = 0)
     \<and> (instances_count c = Some 0 \<longrightarrow> ru_broadcasts_per_instance r = 0)
     \<and> (instances c = [] \<longrightarrow> ru_instances_utilization r = 0)"
  using assms
  by (auto simp add: resource_utilization_of_def py_truediv_def Let_def get_or_def
      split: if_splits)

section \<open>The claims\<close>

text \<open>
  Claim C1. The claim gives the health formulas with userActivation the percentage of
  active users, and a user is active by \<open>user_status\<close> when that field is present. The code
  has the formulas (lemma \<open>health_components_spec\<close>, for every company on which the flag
  is what \<open>isActive\<close> says), but counts active users by \<open>isActive\<close> alone: for the company
  whose only user has \<open>user_status\<close> true and \<open>isActive\<close> false it computes user activation
  0, Engagement 40 and Overall Health 53.5, where the claim's formulas give 100, 100 and
  77.5.
\<close>

theorem health_activation_ignores_user_status:
  "health_components status_only_company =
     Inr \<lparr>h_user_activity_rate = 0, h_instance_activity_rate = 100,
          engagement_score = 40, type_diversity = 25, adoption_score = 70,
          growth_potential = 55, overall_health = 53.5\<rparr>
   \<and> spec_userActivation status_only_company = 100
   \<and> spec_Engagement status_only_company = 100
   \<and> spec_OverallHealth status_only_company = 77.5"
  by (simp add: health_components_def rate_defs status_only_company_def status_only_user_def
      inst_def chan_def active_users_def active_instances_def user_types_def get_or_def Let_def
      spec_userActivation_def spec_Engagement_def spec_OverallHealth_def spec_active_def
      spec_percentage_def spec_instanceUtilization_def spec_Adoption_def spec_TypeDiversity_def
      spec_GrowthPotential_def spec_usersPerChannel_def spec_broadcastsPerInstance_def)

text \<open>
  Claim C2. The claim bounds the Overall Health Score by 100 because TypeDiversity is
  capped at 100. The code does not cap it: on a company whose five active users carry
  the four known types and the default 'Unknown', with one active instance, one channel
  and ten broadcasts, TypeDiversity is 125, Adoption is 110 and the Overall Health Score,
  also as it is stored in the health row, is 103.
\<close>

theorem five_type_health_exceeds_100:
  "health_components five_type_company =
     Inr \<lparr>h_user_activity_rate = 100, h_instance_activity_rate = 100,
          engagement_score = 100, type_diversity = 125, adoption_score = 110,
          growth_potential = 100, overall_health = 103\<rparr>
   \<and> (\<exists>r. health_score_row five_type_company = Inr r \<and> Health_Score r = 103)"
  by (simp add: five_type_health health_score_row_def health_row_of_def py_round_def Let_def)

text \<open>
  Claim C3. The claim has the alert engine emit exactly the alerts of the rules whose
  conditions hold, the activation rules on the percentage of active users. The code does
  so on every company on which the flag is what \<open>isActive\<close> says (lemma
  \<open>company_alerts_fired\<close>), but it counts active users by \<open>isActive\<close> alone: for the
  company whose only user has \<open>user_status\<close> true and \<open>isActive\<close> false, whose activation
  is 100 percent and on which no rule holds, it emits the 'Low activation' alert of
  severity High with the message that 0 percent of the users are active.
\<close>

theorem alert_on_status_only_company:
  "company_alerts status_only_company [] =
     Inr [\<lparr>a_Company = ''Status'', a_Alert_Type = Critical_type,
           a_Category = ''User Activation'', a_Message = Only_pct_of_users_active 0,
           a_Severity = ''High'', a_Metric = Active_metric 0 1,
           a_Action = ''Contact customer success team immediately''\<rparr>]
   \<and> spec_activation_pct status_only_company = 100
   \<and> spec_fired status_only_company = []"
  by (simp add: company_alerts_def alert_user_activation_def alert_zero_broadcasts_def
      alert_inactive_instances_def alert_no_channels_def alert_user_instance_ratio_def
      alert_no_users_def inactive_instances_def py_truediv_def
      status_only_company_def status_only_user_def inst_def chan_def active_users_def
      get_or_def company_name_def Let_def spec_fired_def all_rules_def spec_activation_pct_def
      spec_active_def spec_inactive_share_def spec_user_instance_ratio_def)

text \<open>
  Claim C4. For every company (its user counter not negative) the revenue computation
  returns monthly revenue = users_count * 10 + instances_count * 50 + broadcasts_count *
  0.01, annual revenue = monthly * 12, ARPU = monthly / users_count (0 when users_count is
  0) and the tier of the first matching bound, from high to low: at least 5000 Enterprise,
  at least 1000 Professional, at least 100 Growth, else Starter. The company with 100
  users, 2 instances and 500 broadcasts has monthly revenue 1105 and tier Professional.
\<close>

theorem revenue_model:
  assumes "0 \<le> users_count c"
  shows "revenue c =
     Inr \<lparr>r_Company = company_name c, Monthly_Revenue = spec_monthly c,
          Annual_Revenue = spec_monthly c * 12,
          User_Revenue = users_count c * 10,
          Instance_Revenue = get_or 0 (instances_count c) * 50,
          Broadcast_Revenue = real_of_int (broadcasts_count c) * 0.01,
          r_Users = users_count c, r_Instances = get_or 0 (instances_count c),
          r_Broadcasts = broadcasts_count c, r_Tier = spec_tier (spec_monthly c),
          ARPU = spec_ARPU c\<rparr>
   \<and> (\<exists>r. revenue revenue_example = Inr r \<and> Monthly_Revenue r = 1105
          \<and> r_Tier r = ''Professional'')"
  using assms
  by (simp add: revenue_def Let_def py_truediv_def PRICE_PER_USER_def
      PRICE_PER_INSTANCE_def PRICE_PER_BROADCAST_def spec_monthly_def spec_tier_def
      revenue_tier_def spec_ARPU_def revenue_example_def get_or_def)

theorem revenue_model_witness:
  "revenue revenue_example =
     Inr \<lparr>r_Company = ''Example'', Monthly_Revenue = 1105, Annual_Revenue = 13260,
          User_Revenue = 1000, Instance_Revenue = 100, Broadcast_Revenue = 5,
          r_Users = 100, r_Instances = 2, r_Broadcasts = 500, r_Tier = ''Professional'',
          ARPU = 11.05\<rparr>"
proof -
  have "0 \<le> users_count revenue_example" by (simp add: revenue_example_def)
  from revenue_model [OF this] show ?thesis
    by (simp add: revenue_example_def spec_monthly_def spec_tier_def spec_ARPU_def
        company_name_def get_or_def)
qed




text \<open>
  Claim C6. The claim takes \<open>i\<close> in the growth factor \<open>1 + 0.05 * i + \<epsilon>\<close> to be the number
  of periods ago, so that the synthesized history rises towards the present. In the code
  \<open>i\<close> is the position in the list of months, which starts twelve periods ago: the
  oldest period gets the smallest factor. With totals of 1000 and every random draw 0 the
  series of users is 1000 for twelve periods ago and falls to 645 for one period ago,
  before the current total of 1000 is appended as the 13th point.
\<close>

theorem backfill_history_runs_downward:
  "metric_values hist_Users thousand (\<lambda>_. 0) =
     Inr [1000, 952, 909, 869, 833, 800, 769, 740, 714, 689, 666, 645, 1000]
   \<and> metric_values hist_Month thousand (\<lambda>_. 0) =
     Inr [12, 11, 10, 9, 8, 7, 6, 5, 4, 3, 2, 1, 0]"
  by code_simp

text \<open>
  Claim C7. For every company the loop builds the health row from the values it computed,
  and the tier of the row is decided on the Overall Health the code holds, whatever that
  value is, with inclusive lower bounds tried from high to low: every score of at least
  80 is Healthy, Low, 'Explore upsell opportunities'; every score from 60 and below 80 is
  Stable, Medium, 'Monitor engagement trends'; every score from 40 and below 60 is At
  Risk, High, 'Increase engagement, provide training'; every score below 40 is Critical,
  Critical, 'Immediate intervention required'. (The witness is the five scores 80, 79.99,
  60, 40 and 39.99.)
\<close>

theorem health_tier_rule:
  "(\<exists>h. health_components c = Inr h \<and> health_score_row c = Inr (health_row_of c h))
   \<and> Tier (health_row_of c h) = health_tier (overall_health h)
   \<and> (80 \<le> s \<longrightarrow> health_tier s =
         \<lparr>status = ''Healthy'', status_emoji = Green_circle, risk = ''Low'',
          recommendation = ''Explore upsell opportunities''\<rparr>)
   \<and> (60 \<le> s \<and> s < 80 \<longrightarrow> health_tier s =
         \<lparr>status = ''Stable'', status_emoji = Yellow_circle, risk = ''Medium'',
          recommendation = ''Monitor engagement trends''\<rparr>)
   \<and> (40 \<le> s \<and> s < 60 \<longrightarrow> health_tier s =
         \<lparr>status = ''At Risk'', status_emoji = Orange_circle, risk = ''High'',
          recommendation = ''Increase engagement, provide training''\<rparr>)
   \<and> (s < 40 \<longrightarrow> health_tier s =
         \<lparr>status = ''Critical'', status_emoji = Red_circle, risk = ''Critical'',
          recommendation = ''Immediate intervention required''\<rparr>)"
  by (simp add: health_score_row_def health_components_closed health_row_of_def
      health_tier_def)

theorem health_tier_rule_witness:
  "health_tier 80 =
       \<lparr>status = ''Healthy'', status_emoji = Green_circle, risk = ''Low'',
        recommendation = ''Explore upsell opportunities''\<rparr>
   \<and> health_tier 79.99 =
       \<lparr>status = ''Stable'', status_emoji = Yellow_circle, risk = ''Medium'',
        recommendation = ''Monitor engagement trends''\<rparr>
   \<and> health_tier 60 =
       \<lparr>status = ''Stable'', status_emoji = Yellow_circle, risk = ''Medium'',
        recommendation = ''Monitor engagement trends''\<rparr>
   \<and> health_tier 40 =
       \<lparr>status = ''At Risk'', status_emoji = Orange_circle, risk = ''High'',
        recommendation = ''Increase engagement, provide training''\<rparr>
   \<and> health_tier 39.99 =
       \<lparr>status = ''Critical'', status_emoji = Red_circle, risk = ''Critical'',
        recommendation = ''Immediate intervention required''\<rparr>"
  using health_tier_rule [of _ _ 80] health_tier_rule [of _ _ "79.99"] health_tier_rule [of _ _ 60] health_tier_rule [of _ _ 40]
    health_tier_rule [of _ _ "39.99"]
  by simp

text \<open>
  Claim C8. The claim has the benchmark computation on an empty company set fail with an
  explicit 'insufficient data' signal, and the per-company computations yield an empty
  list. The loops do yield empty lists, but no view signals anything: the benchmark view
  stops at its first column selection with \<open>KeyError\<close> for 'User Activation %', and the
  health and revenue views stop with \<open>KeyError\<close> when they sort the empty frame. Only the
  alerts view guards the empty frame and shows a notice.
\<close>

theorem empty_company_set_crashes:
  "benchmarking round1 [] = Inl (KeyError ''User Activation %'')
   \<and> health_scores [] = Inr [] \<and> df_health [] = Inl (KeyError ''Health Score'')
   \<and> revenue_data [] = Inr [] \<and> df_revenue [] = Inl (KeyError ''Monthly Revenue'')
   \<and> check_alerts [] = Inr []
   \<and> alerts_view [] = Inr (Notice ''No alerts! All systems operating normally.'')"
  by (simp add: benchmarking_def benchmark_data_def benchmarks_of_def column_percentiles_def
      df_column_def health_scores_def df_health_def sort_values_def revenue_data_def
      df_revenue_def check_alerts_def alerts_view_def)

text \<open>
  Claim C9. The claim counts a user as active by \<open>user_status\<close> when that field is present
  and by \<open>isActive\<close> otherwise, in every computation. The console report does so; the
  dashboard's health, alert and benchmark computations read \<open>isActive\<close> alone. A user
  whose \<open>user_status\<close> holds and whose \<open>isActive\<close> does not is one active user for the
  report and none for the dashboard, whose activation rate for it is 0.
\<close>

theorem dashboard_ignores_user_status:
  "active_users [status_only_user] = 0 \<and> user_activity_rate [status_only_user] = Inr 0
   \<and> active_count (analyze_users [status_only_user]) = 1"
  by (simp add: active_users_def rate_defs status_only_user_def analyze_users_def get_or_def
      user_status_or_isActive_def Let_def)

text \<open>
  Claim C10. The claim has every rate be 0 for a company whose collection is empty. The
  dashboard's rates are (lemma \<open>app_rates_on_empty_collections\<close>), but the chart
  generator's users-per-channel and broadcasts-per-instance read the counter of the
  denominator with the default 1: for a company with empty collections, 5 users and 7
  broadcasts on its counters and no \<open>channels_count\<close> and \<open>instances_count\<close> key they are
  5 and 7.
\<close>

theorem counter_ratios_default_one:
  "resource_utilization_of counterless_company =
     Inr \<lparr>ru_users_per_channel = 5, ru_instances_utilization = 0,
          ru_broadcasts_per_instance = 7\<rparr>
   \<and> users_per_channel counterless_company = Inr 0
   \<and> broadcasts_per_instance counterless_company = Inr 0"
  by (simp add: resource_utilization_of_def py_truediv_def Let_def get_or_def rate_defs
      counterless_company_def)

section \<open>Further properties of the code\<close>

lemma spec_percentage_bounds: "k \<le> n \<Longrightarrow> 0 \<le> spec_percentage k n \<and> spec_percentage k n \<le> 100"
  by (simp add: spec_percentage_def divide_le_eq)

text \<open>With at most four distinct user types and a broadcast counter that is not negative,
  the Overall Health Score lies between 0 and 100.\<close>

lemma overall_health_bounded_four_types:
  assumes "length (user_types (users c)) \<le> 4" and "0 \<le> broadcasts_count c"
  shows "\<exists>h. health_components c = Inr h \<and> 0 \<le> overall_health h \<and> overall_health h \<le> 100"
proof -
  define ua where "ua = spec_percentage (active_users (users c)) (length (users c))"
  have ua: "0 \<le> ua \<and> ua \<le> 100"
    unfolding ua_def by (rule spec_percentage_bounds) (simp add: active_users_def)
  have iu: "0 \<le> spec_instanceUtilization c \<and> spec_instanceUtilization c \<le> 100"
    unfolding spec_instanceUtilization_def by (rule spec_percentage_bounds) simp
  have "card ((\<lambda>u. get_or ''Unknown'' (user_type_name u)) ` set (users c)) \<le> 4"
    using assms(1) by (simp add: user_types_def length_remdups_card_conv)
  then have "real (card ((\<lambda>u. get_or ''Unknown'' (user_type_name u)) ` set (users c))) \<le> 4"
    by simp
  then have td: "0 \<le> spec_TypeDiversity c \<and> spec_TypeDiversity c \<le> 100"
    by (simp add: spec_TypeDiversity_def)
  have ad: "0 \<le> spec_Adoption c \<and> spec_Adoption c \<le> 100"
    using td by (simp add: spec_Adoption_def)
  have upc: "0 \<le> spec_usersPerChannel c" by (simp add: spec_usersPerChannel_def)
  have bpi: "0 \<le> spec_broadcastsPerInstance c"
    using assms(2) by (simp add: spec_broadcastsPerInstance_def)
  have gp: "0 \<le> spec_GrowthPotential c \<and> spec_GrowthPotential c \<le> 100"
    using upc bpi by (simp add: spec_GrowthPotential_def)
  define e where "e = ua * 0.6 + spec_instanceUtilization c * 0.4"
  have en: "0 \<le> e" "e \<le> 100"
    using ua iu unfolding e_def by linarith+
  have "0 \<le> e * 0.4 + spec_Adoption c * 0.3 + spec_GrowthPotential c * 0.3"
    "e * 0.4 + spec_Adoption c * 0.3 + spec_GrowthPotential c * 0.3 \<le> 100"
    using en ad gp by linarith+
  then show ?thesis by (simp add: health_components_closed ua_def e_def)
qed

text \<open>The Overall Health Score does not decrease when none of its three components
  does.\<close>

lemma overall_health_monotone:
  assumes "health_components c = Inr h" and "health_components c' = Inr h'"
    and "engagement_score h \<le> engagement_score h'"
    and "adoption_score h \<le> adoption_score h'"
    and "growth_potential h \<le> growth_potential h'"
  shows "overall_health h \<le> overall_health h'"
proof -
  have "overall_health h = engagement_score h * 0.4 + adoption_score h * 0.3 + growth_potential h * 0.3"
    using assms(1) by (auto simp add: health_components_closed)
  moreover have "overall_health h' = engagement_score h' * 0.4 + adoption_score h' * 0.3 + growth_potential h' * 0.3"
    using assms(2) by (auto simp add: health_components_closed)
  ultimately show ?thesis using assms(3-5) by simp
qed

text \<open>The flag the console report and the chart generator read is the specification's
  activity flag.\<close>

lemma user_status_or_isActive_spec: "user_status_or_isActive u = spec_active u"
  by (simp add: user_status_or_isActive_def spec_active_def get_or_def split: option.splits)

lemma analyze_users_loop_counts:
  "active_count (analyze_users_loop us st) = active_count st + length (filter user_status_or_isActive us)
   \<and> inactive_count (analyze_users_loop us st) =
       inactive_count st + length (filter (\<lambda>u. \<not> user_status_or_isActive u) us)"
  by (induction us arbitrary: st) (simp_all add: Let_def)

text \<open>The console report counts a user as active by \<open>user_status\<close> when the field is
  present and by \<open>isActive\<close> otherwise, and every user as either active or inactive.\<close>

lemma analyze_users_counts: "active_count (analyze_users us) = length (filter user_status_or_isActive us)
   \<and> inactive_count (analyze_users us) = length (filter (\<lambda>u. \<not> user_status_or_isActive u) us)
   \<and> active_count (analyze_users us) + inactive_count (analyze_users us) = length us"
  by (simp add: analyze_users_def analyze_users_loop_counts sum_length_filter_compl)

lemma growth_factor_pos: "0 \<le> r \<Longrightarrow> 0 < growth_factor i r"
  by (simp add: growth_factor_def add_pos_nonneg)

lemma backfill_eq: "0 \<le> r \<Longrightarrow> backfill b (growth_factor i r) =
   Inr (if b > 0 then py_int (real_of_int b / growth_factor i r) else 0)"
  using growth_factor_pos [of r i] by (simp add: backfill_def py_truediv_def)

lemma months_enum: "enumerate 0 months = map (\<lambda>i. (i, 12 - i)) [0..<12]"
  by code_simp

text \<open>When no random draw is negative the backfill never raises: it yields twelve rows,
  the row at position \<open>i\<close> for the period \<open>12 - i\<close> periods ago with the totals divided by
  \<open>growth_factor i (rnd i)\<close> and truncated, followed by the row of the current totals.\<close>

lemma df_historical_rows:
  assumes "\<forall>i<12. 0 \<le> rnd i"
  shows "df_historical md rnd =
    Inr (map (\<lambda>i. \<lparr>hist_Month = 12 - i,
                 hist_Users = (if total_users md > 0 then py_int (real_of_int (total_users md) / growth_factor i (rnd i)) else 0),
                 hist_Companies = (if total_companies md > 0 then py_int (real_of_int (total_companies md) / growth_factor i (rnd i)) else 0),
                 hist_Instances = (if total_instances md > 0 then py_int (real_of_int (total_instances md) / growth_factor i (rnd i)) else 0),
                 hist_Broadcasts = (if total_broadcasts md > 0 then py_int (real_of_int (total_broadcasts md) / growth_factor i (rnd i)) else 0)\<rparr>) [0..<12]
         @ [\<lparr>hist_Month = 0, hist_Users = total_users md, hist_Companies = total_companies md,
             hist_Instances = total_instances md, hist_Broadcasts = total_broadcasts md\<rparr>])"
proof -
  let ?row = "\<lambda>(i, month). \<lparr>hist_Month = month,
                 hist_Users = (if total_users md > 0 then py_int (real_of_int (total_users md) / growth_factor i (rnd i)) else 0),
                 hist_Companies = (if total_companies md > 0 then py_int (real_of_int (total_companies md) / growth_factor i (rnd i)) else 0),
                 hist_Instances = (if total_instances md > 0 then py_int (real_of_int (total_instances md) / growth_factor i (rnd i)) else 0),
                 hist_Broadcasts = (if total_broadcasts md > 0 then py_int (real_of_int (total_broadcasts md) / growth_factor i (rnd i)) else 0)\<rparr>"
  have "historical_data md rnd = Inr (map ?row (enumerate 0 months))"
    unfolding historical_data_def
  proof (rule map_res_Inr_map)
    fix x assume "x \<in> set (enumerate 0 months)"
    then obtain i where x: "x = (i, 12 - i)" and i: "i < 12"
      unfolding months_enum by auto
    from i assms have "0 \<le> rnd i" by simp
    then show "(case x of (i, month) \<Rightarrow>
           let gf = growth_factor i (rnd i) in
           bind_res (backfill (total_users md) gf) (\<lambda>u.
           bind_res (backfill (total_companies md) gf) (\<lambda>c.
           bind_res (backfill (total_instances md) gf) (\<lambda>n.
           bind_res (backfill (total_broadcasts md) gf) (\<lambda>b.
             Inr \<lparr>hist_Month = month, hist_Users = u, hist_Companies = c,
                  hist_Instances = n, hist_Broadcasts = b\<rparr>))))) = Inr (?row x)"
      by (simp add: x Let_def backfill_eq bind_res_def)
  qed
  then show ?thesis
    by (simp add: df_historical_def bind_res_def months_enum o_def)
qed

end
